theory Spec2Isabelle
  imports Main "HOL-Library.Sublist" "HOL-Library.Multiset"
begin

section \<open>Python values shared by both modules\<close>

text \<open>
  The exceptions that the modelled code raises, catches or lets through. A subclass is
  represented by the base class its handler names: \<open>OSError\<close> stands for every
  I/O error of the FITS library, \<open>LibRawFatalError\<close> and \<open>LibRawNonFatalError\<close>
  for the two families of RAW driver errors. \<open>OtherException\<close> is any exception
  that no handler of the modelled code names.
\<close>

datatype exc =
    Empty
  | Full
  | ValueError
  | IndexError
  | AssertionError
  | OSError
  | LibRawNonFatalError
  | LibRawFatalError
  | OtherException string

text \<open>
  A call either returns a value (\<open>Inr\<close>) or raises (\<open>Inl\<close>). A call that may
  never return has the result type \<open>(exc + 'a) option\<close>, \<open>None\<close> meaning that
  it does not return.
\<close>

type_synonym 'a result = "exc + 'a"




text \<open>\<open>s[k]\<close> for an unsigned index \<open>k\<close> raises \<open>IndexError\<close> out of range.\<close>

definition py_getitem :: "'a list \<Rightarrow> nat \<Rightarrow> 'a result" where
  "py_getitem s k = (if k < length s then Inr (s ! k) else Inl IndexError)"

section \<open>model.py: Image\<close>

text \<open>
  A numpy array is its shape and its elements in row-major order; \<open>ndim\<close> is the
  length of the shape. The elements play no part in the operations modelled here.
\<close>

record 'a ndarray =
  shape :: "nat list"
  elems :: "'a list"

definition ndim :: "'a ndarray \<Rightarrow> nat" where
  "ndim a = length (shape a)"

record 'a image =
  data :: "'a ndarray"
  bayer_pattern :: "string option"
  origin :: string
  destination :: string

definition Image :: "'a ndarray \<Rightarrow> 'a image" where
  "Image d = \<lparr>data = d, bayer_pattern = None, origin = ''UNDEFINED'', destination = ''UNDEFINED''\<rparr>"




definition needs_debayering :: "'a image \<Rightarrow> bool" where
  "needs_debayering img = (bayer_pattern img \<noteq> None \<and> ndim (data img) < 3)"

definition is_color :: "'a image \<Rightarrow> bool" where
  "is_color img = (ndim (data img) > 2)"

definition is_bw :: "'a image \<Rightarrow> bool" where
  "is_bw img = (ndim (data img) = 2 \<and> bayer_pattern img = None)"

section \<open>The standard library's queue\<close>

text \<open>
  \<open>queue.Queue\<close> belongs to Python's standard library, not to this repository. It
  is modelled here as one thread sees it: \<open>maxsize\<close> and the stored items, oldest
  first. \<open>put\<close> appends at the end, \<open>get\<close> removes from the front. A queue with
  \<open>maxsize \<le> 0\<close> is unbounded. With \<open>block\<close> set and no timeout, a \<open>put\<close> on a
  full queue and a \<open>get\<close> on an empty one wait for another thread; with no other
  thread they never return, which is the result \<open>None\<close>. With a timeout the wait ends
  in \<open>Full\<close> or \<open>Empty\<close>; only the sign of the timeout matters, so it is an integer
  here.
\<close>

record 'a py_queue =
  maxsize :: int
  queue :: "'a list"

definition Queue :: "int \<Rightarrow> 'a py_queue" where
  "Queue m = \<lparr>maxsize = m, queue = []\<rparr>"

definition Queue_qsize :: "'a py_queue \<Rightarrow> nat" where
  "Queue_qsize q = length (queue q)"

definition Queue_empty :: "'a py_queue \<Rightarrow> bool" where
  "Queue_empty q = (Queue_qsize q = 0)"

definition Queue_is_full :: "'a py_queue \<Rightarrow> bool" where
  "Queue_is_full q = (int (Queue_qsize q) \<ge> maxsize q)"

definition Queue_put :: "'a py_queue \<Rightarrow> 'a \<Rightarrow> bool \<Rightarrow> int option \<Rightarrow> 'a py_queue result option" where
  "Queue_put q item block timeout =
     (let stored = q\<lparr>queue := queue q @ [item]\<rparr> in
      if maxsize q > 0 then
        (if \<not> block then
           (if Queue_is_full q then Some (Inl Full) else Some (Inr stored))
         else case timeout of
           None \<Rightarrow> (if Queue_is_full q then None else Some (Inr stored))
         | Some t \<Rightarrow>
             (if t < 0 then Some (Inl ValueError)
              else if Queue_is_full q then Some (Inl Full)
              else Some (Inr stored)))
      else Some (Inr stored))"

definition Queue_get :: "'a py_queue \<Rightarrow> bool \<Rightarrow> int option \<Rightarrow> ('a \<times> 'a py_queue) result option" where
  "Queue_get q block timeout =
     (let taken = (hd (queue q), q\<lparr>queue := tl (queue q)\<rparr>) in
      if \<not> block then
        (if Queue_empty q then Some (Inl Empty) else Some (Inr taken))
      else case timeout of
        None \<Rightarrow> (if Queue_empty q then None else Some (Inr taken))
      | Some t \<Rightarrow>
          (if t < 0 then Some (Inl ValueError)
           else if Queue_empty q then Some (Inl Empty)
           else Some (Inr taken)))"



section \<open>model.py: SignalingQueue\<close>

text \<open>
  A Qt signal emitted with a value is an entry appended to the list of emissions that
  the queue's listeners receive, in the order of the \<open>emit\<close> calls.
\<close>

datatype signal = item_pushed_signal nat | item_popped_signal nat

record 'a signaling_queue =
  base :: "'a py_queue"
  emitted :: "signal list"

definition SignalingQueue :: "int \<Rightarrow> 'a signaling_queue" where
  "SignalingQueue m = \<lparr>base = Queue m, emitted = []\<rparr>"

















section \<open>model.py: DataStore\<close>

text \<open>
  Python's \<open>str.isspace\<close> and \<open>str.strip\<close>, on characters with code points below
  256: the whitespace characters are 9 to 13, 28 to 32, 133 and 160.
\<close>

definition py_isspace :: "char \<Rightarrow> bool" where
  "py_isspace c =
     (let n = (of_char c :: nat) in
      (9 \<le> n \<and> n \<le> 13) \<or> (28 \<le> n \<and> n \<le> 32) \<or> n = 133 \<or> n = 160)"

definition py_strip :: "string \<Rightarrow> string" where
  "py_strip s = rev (dropWhile py_isspace (rev (dropWhile py_isspace s)))"

definition STACKING_MODE_SUM :: string where
  "STACKING_MODE_SUM = ''Sum''"

definition STACKING_MODE_MEAN :: string where
  "STACKING_MODE_MEAN = ''Mean''"

text \<open>
  An observer is known by a number. Its \<open>update_according_to_app_state\<close> is code of
  the user interface; a call of it is recorded in \<open>notified\<close>, in the order of the
  calls. \<open>scan_in_progress\<close> is not set by the constructor: input.py assigns it, and
  \<open>None\<close> is the attribute not being there yet.
\<close>

record 'a datastore =
  observers :: "nat list"
  session_is_started :: bool
  session_is_stopped :: bool
  session_is_paused :: bool
  web_server_is_running :: bool
  stacking_mode :: string
  align_before_stacking :: bool
  process_result :: "'a image option"
  input_queue :: "'a image signaling_queue"
  stack_queue :: "'a image signaling_queue"
  process_queue :: "'a image signaling_queue"
  save_queue :: "'a image signaling_queue"
  scan_in_progress :: "bool option"
  notified :: "nat list"

definition DataStore :: "'a datastore" where
  "DataStore =
     \<lparr>observers = [],
      session_is_started = False,
      session_is_stopped = True,
      session_is_paused = False,
      web_server_is_running = False,
      stacking_mode = [],
      align_before_stacking = True,
      process_result = None,
      input_queue = SignalingQueue 0,
      stack_queue = SignalingQueue 0,
      process_queue = SignalingQueue 0,
      save_queue = SignalingQueue 0,
      scan_in_progress = None,
      notified = []\<rparr>"

definition notify_observers :: "'a datastore \<Rightarrow> 'a datastore" where
  "notify_observers s = s\<lparr>notified := notified s @ observers s\<rparr>"

definition set_stacking_mode :: "'a datastore \<Rightarrow> string \<Rightarrow> 'a datastore" where
  "set_stacking_mode s text =
     (if py_strip text \<in> set [STACKING_MODE_MEAN, STACKING_MODE_SUM]
      then s\<lparr>stacking_mode := text\<rparr>
      else s\<lparr>stacking_mode := STACKING_MODE_MEAN\<rparr>)"

definition set_web_server_is_running :: "'a datastore \<Rightarrow> bool \<Rightarrow> 'a datastore" where
  "set_web_server_is_running s running = notify_observers (s\<lparr>web_server_is_running := running\<rparr>)"

definition record_session_start :: "'a datastore \<Rightarrow> 'a datastore" where
  "record_session_start s =
     notify_observers
       (s\<lparr>session_is_started := True, session_is_stopped := False, session_is_paused := False\<rparr>)"

definition record_session_stop :: "'a datastore \<Rightarrow> 'a datastore" where
  "record_session_stop s =
     notify_observers
       (s\<lparr>session_is_started := False, session_is_stopped := True, session_is_paused := False\<rparr>)"

definition record_session_pause :: "'a datastore \<Rightarrow> 'a datastore" where
  "record_session_pause s =
     notify_observers
       (s\<lparr>session_is_started := False, session_is_stopped := False, session_is_paused := True\<rparr>)"

definition add_observer :: "'a datastore \<Rightarrow> nat \<Rightarrow> 'a datastore" where
  "add_observer s observer = s\<lparr>observers := observers s @ [observer]\<rparr>"

text \<open>A sequence of calls of the three transition operations, oldest first.\<close>

datatype transition = Start | Stop | Pause

fun record_session :: "transition \<Rightarrow> 'a datastore \<Rightarrow> 'a datastore" where
  "record_session Start s = record_session_start s"
| "record_session Stop s = record_session_stop s"
| "record_session Pause s = record_session_pause s"

definition record_sessions :: "transition list \<Rightarrow> 'a datastore \<Rightarrow> 'a datastore" where
  "record_sessions ts s = fold record_session ts s"

section \<open>input.py: paths, files and the world around the scanner\<close>

text \<open>
  A \<open>pathlib.Path\<close> is given by its components after the anchor; building one from
  a string is the library's work and is not modelled. \<open>name\<close> is the last component
  (empty when there is none) and \<open>suffix\<close> is the part of the name from its last
  dot, unless that dot is the first or the last character of the name.
\<close>

record path =
  anchor :: string
  parts :: "string list"

definition path_name :: "path \<Rightarrow> string" where
  "path_name p = (if parts p = [] then [] else last (parts p))"

definition py_rfind :: "char \<Rightarrow> string \<Rightarrow> int" where
  "py_rfind c s =
     (if c \<in> set s then int (length s) - 1 - int (length (takeWhile (\<lambda>x. x \<noteq> c) (rev s)))
      else - 1)"

definition path_suffix :: "path \<Rightarrow> string" where
  "path_suffix p =
     (let name = path_name p; i = py_rfind (CHR ''.'') name in
      if 0 < i \<and> i < int (length name) - 1 then drop (nat i) name else [])"

text \<open>\<open>str.lower\<close> on characters with code points below 256.\<close>

definition py_lower_char :: "char \<Rightarrow> char" where
  "py_lower_char c =
     (let n = (of_char c :: nat) in
      if (65 \<le> n \<and> n \<le> 90) \<or> (192 \<le> n \<and> n \<le> 222 \<and> n \<noteq> 215) then char_of (n + 32) else c)"

definition py_lower :: "string \<Rightarrow> string" where
  "py_lower s = map py_lower_char s"

definition IGNORED_FILENAME_START_PATTERNS :: "string list" where
  "IGNORED_FILENAME_START_PATTERNS = [''.'', ''~'', ''tmp'']"

text \<open>
  What the two decoding libraries hand over. A FITS file is its list of header/data
  units, a header being its cards (keyword and value). A RAW file gives the index tile
  \<open>raw_pattern\<close> (a square array whose \<open>flatten\<close> is its elements in row-major
  order), the colour labels \<open>color_desc\<close> (already decoded to text) and the visible
  samples.
\<close>

record 'a hdu =
  hdu_data :: "'a ndarray"
  hdu_header :: "(string \<times> string) list"

record 'a raw_file =
  raw_pattern :: "nat ndarray"
  color_desc :: string
  raw_image_visible :: "'a ndarray"

definition flatten :: "'b ndarray \<Rightarrow> 'b list" where
  "flatten a = elems a"

text \<open>
  The file system and the libraries are parameters: what \<open>fits.open\<close> and
  \<open>rawpy.imread\<close> return or raise for a path, the text of the resolved path, and the
  configured scan folder.
\<close>

record 'a env =
  fits_open :: "path \<Rightarrow> 'a hdu list result"
  rawpy_imread :: "path \<Rightarrow> 'a raw_file result"
  resolve :: "path \<Rightarrow> string"
  scan_folder_path :: string

text \<open>
  The state that input.py works on: its module-level queue and the shared store.
  \<open>reader_calls\<close> is no variable of the program: it lists the calls of the two
  readers, in order, so that a property can say that a reader was or was not called.
  Messages to the log are not part of the state.
\<close>

datatype reader = Fit_reader | Raw_reader

record 'a world =
  IMAGE_INPUT_QUEUE :: "'a image py_queue"
  STORE :: "'a datastore"
  reader_calls :: "(reader \<times> path) list"

section \<open>input.py: reading an image\<close>

function bayer_loop :: "nat list \<Rightarrow> string \<Rightarrow> nat \<Rightarrow> string \<Rightarrow> string result" where
  "bayer_loop indices colors i bayer =
     (if i < length indices then
        (if \<not> indices ! i < length indices then Inl AssertionError
         else case py_getitem colors (indices ! i) of
                Inl e \<Rightarrow> Inl e
              | Inr c \<Rightarrow> bayer_loop indices colors (i + 1) (bayer @ [c]))
      else Inr bayer)"
  by pat_completeness auto
termination
  by (relation "measure (\<lambda>(indices, colors, i, bayer). length indices - i)") auto

declare bayer_loop.simps [simp del]

text \<open>Lines 245 to 252 of input.py: the two assertions and the loop.\<close>

definition canonical_bayer_pattern :: "nat list \<Rightarrow> string \<Rightarrow> string result" where
  "canonical_bayer_pattern indices colors =
     (if length indices \<noteq> length colors then Inl AssertionError
      else bayer_loop indices colors 0 [])"

definition read_fit_image :: "'a env \<Rightarrow> 'a world \<Rightarrow> path \<Rightarrow> 'a world \<times> 'a image option result" where
  "read_fit_image env w p =
     (let w' = w\<lparr>reader_calls := reader_calls w @ [(Fit_reader, p)]\<rparr>;
          body =
            (case fits_open env p of
               Inl e \<Rightarrow> Inl e
             | Inr fit \<Rightarrow>
                 (case py_getitem fit 0 of
                    Inl e \<Rightarrow> Inl e
                  | Inr unit0 \<Rightarrow>
                      (let img = Image (hdu_data unit0) in
                       case map_of (hdu_header unit0) ''BAYERPAT'' of
                         None \<Rightarrow> Inr img
                       | Some v \<Rightarrow> Inr (img\<lparr>bayer_pattern := Some v\<rparr>))))
      in case body of
           Inl e \<Rightarrow> (if e = OSError then (w', Inr None) else (w', Inl e))
         | Inr img \<Rightarrow> (w', Inr (Some img)))"

definition read_raw_image :: "'a env \<Rightarrow> 'a world \<Rightarrow> path \<Rightarrow> 'a world \<times> 'a image option result" where
  "read_raw_image env w p =
     (let w' = w\<lparr>reader_calls := reader_calls w @ [(Raw_reader, p)]\<rparr>;
          body =
            (case rawpy_imread env p of
               Inl e \<Rightarrow> Inl e
             | Inr raw_image \<Rightarrow>
                 (case canonical_bayer_pattern (flatten (raw_pattern raw_image)) (color_desc raw_image) of
                    Inl e \<Rightarrow> Inl e
                  | Inr bayer \<Rightarrow>
                      Inr ((Image (raw_image_visible raw_image))\<lparr>bayer_pattern := Some bayer\<rparr>)))
      in case body of
           Inl e \<Rightarrow>
             (if e = LibRawNonFatalError then (w', Inr None)
              else if e = LibRawFatalError then (w', Inr None)
              else (w', Inl e))
         | Inr img \<Rightarrow> (w', Inr (Some img)))"

fun ignore_loop :: "string list \<Rightarrow> string \<Rightarrow> bool \<Rightarrow> bool" where
  "ignore_loop [] name ignore_image = ignore_image"
| "ignore_loop (pattern # patterns) name ignore_image =
     (if prefix pattern name then True else ignore_loop patterns name ignore_image)"

definition read_image :: "'a env \<Rightarrow> 'a world \<Rightarrow> path \<Rightarrow> 'a world \<times> 'a image option result" where
  "read_image env w p =
     (let ignore_image = ignore_loop IGNORED_FILENAME_START_PATTERNS (path_name p) False in
      if \<not> ignore_image then
        (case (if py_lower (path_suffix p) \<in> set [''.fit'', ''.fits'']
               then read_fit_image env w p
               else read_raw_image env w p) of
           (w', Inl e) \<Rightarrow> (w', Inl e)
         | (w', Inr None) \<Rightarrow> (w', Inr None)
         | (w', Inr (Some img)) \<Rightarrow>
             (w', Inr (Some (img\<lparr>origin := ''FILE : '' @ resolve env p\<rparr>))))
      else (w, Inr None))"

section \<open>input.py: FolderScanner\<close>

definition enqueue_image :: "'a world \<Rightarrow> 'a image option \<Rightarrow> ('a world \<times> unit result) option" where
  "enqueue_image w im =
     (case im of
        None \<Rightarrow> Some (w, Inr ())
      | Some img \<Rightarrow>
          (case Queue_put (IMAGE_INPUT_QUEUE w) img True None of
             None \<Rightarrow> None
           | Some (Inl e) \<Rightarrow> Some (w, Inl e)
           | Some (Inr q) \<Rightarrow> Some (w\<lparr>IMAGE_INPUT_QUEUE := q\<rparr>, Inr ())))"

text \<open>
  The loop of \<open>_purge_queue\<close>. An exception raised by \<open>get\<close> would leave the queue
  as far as it has been emptied.
\<close>

function purge_loop :: "'a py_queue \<Rightarrow> ('a py_queue \<times> unit result) option" where
  "purge_loop q =
     (if \<not> Queue_empty q then
        (case Queue_get q True None of
           None \<Rightarrow> None
         | Some (Inl e) \<Rightarrow> Some (q, Inl e)
         | Some (Inr (item, q')) \<Rightarrow> purge_loop q')
      else Some (q, Inr ()))"
  by pat_completeness auto
termination
  by (relation "measure (\<lambda>q. length (queue q))")
     (auto simp: Queue_get_def Queue_empty_def Queue_qsize_def)

declare purge_loop.simps [simp del]

definition purge_queue :: "'a world \<Rightarrow> ('a world \<times> unit result) option" where
  "purge_queue w =
     (case purge_loop (IMAGE_INPUT_QUEUE w) of
        None \<Rightarrow> None
      | Some (q, r) \<Rightarrow> Some (w\<lparr>IMAGE_INPUT_QUEUE := q\<rparr>, r))"

text \<open>
  The scanner object holds the polling observer of the watchdog library, or none. An
  observer is the folders it is scheduled on and whether its thread has been started.
\<close>

record polling_observer =
  scheduled :: "string list"
  started :: bool

record folder_scanner =
  observer :: "polling_observer option"

definition FolderScanner :: folder_scanner where
  "FolderScanner = \<lparr>observer = None\<rparr>"

definition start :: "'a env \<Rightarrow> folder_scanner \<Rightarrow> 'a world \<Rightarrow> folder_scanner \<times> 'a world" where
  "start env sc w =
     (sc\<lparr>observer := Some \<lparr>scheduled = [scan_folder_path env], started = True\<rparr>\<rparr>,
      w\<lparr>STORE := (STORE w)\<lparr>scan_in_progress := Some True\<rparr>\<rparr>)"

definition stop_observer :: "folder_scanner \<Rightarrow> 'a world \<Rightarrow> folder_scanner \<times> 'a world" where
  "stop_observer sc w =
     (case observer sc of
        None \<Rightarrow> (sc, w)
      | Some obs \<Rightarrow>
          (sc\<lparr>observer := None\<rparr>, w\<lparr>STORE := (STORE w)\<lparr>scan_in_progress := Some False\<rparr>\<rparr>))"

definition pause :: "folder_scanner \<Rightarrow> 'a world \<Rightarrow> folder_scanner \<times> 'a world" where
  "pause sc w = stop_observer sc w"

definition stop :: "folder_scanner \<Rightarrow> 'a world \<Rightarrow> (folder_scanner \<times> 'a world \<times> unit result) option" where
  "stop sc w =
     (case stop_observer sc w of
        (sc', w') \<Rightarrow>
          (case purge_queue w' of
             None \<Rightarrow> None
           | Some (w'', r) \<Rightarrow> Some (sc', w'', r)))"

record event =
  event_type :: string
  src_path :: path
  dest_path :: path


text \<open>
  The loop of \<open>on_created\<close>. \<open>sizes k\<close> is what the \<open>k\<close>-th reading of the file's
  size returns, counted from 0, and \<open>k\<close> counts the readings made so far. The loop
  hands back that count and the last size read; when it runs forever the result is
  \<open>None\<close>.
\<close>

partial_function (option) wait_loop :: "(nat \<Rightarrow> nat) \<Rightarrow> nat \<Rightarrow> bool \<Rightarrow> int \<Rightarrow> (nat \<times> int) option" where
  "wait_loop sizes k file_is_incomplete last_file_size =
     (if file_is_incomplete then
        (let fsize = int (sizes k) in
         wait_loop sizes (k + 1) (if fsize = last_file_size then False else file_is_incomplete) fsize)
      else Some (k, last_file_size))"

definition on_created :: "'a env \<Rightarrow> 'a world \<Rightarrow> event \<Rightarrow> (nat \<Rightarrow> nat) \<Rightarrow> ('a world \<times> unit result) option" where
  "on_created env w ev sizes =
     (if event_type ev = ''created'' then
        (case wait_loop sizes 0 True (- 1) of
           None \<Rightarrow> None
         | Some waited \<Rightarrow>
             (case read_image env w (src_path ev) of
                (w', Inl e) \<Rightarrow> Some (w', Inl e)
              | (w', Inr im) \<Rightarrow> enqueue_image w' im))
      else Some (w, Inr ()))"

section \<open>Concrete files, libraries and states\<close>


definition raw_path :: path where
  "raw_path = \<lparr>anchor = ''/'', parts = [''scan'', ''DSCF0001.raf'']\<rparr>"

definition hidden_path :: path where
  "hidden_path = \<lparr>anchor = ''/'', parts = [''scan'', ''.m42.fits'']\<rparr>"

definition new_world :: "nat world" where
  "new_world = \<lparr>IMAGE_INPUT_QUEUE = Queue 0, STORE = DataStore, reader_calls = []\<rparr>"

definition bayer_raw_file :: "nat raw_file" where
  "bayer_raw_file =
     \<lparr>raw_pattern = \<lparr>shape = [2, 2], elems = [0, 1, 3, 2]\<rparr>,
      color_desc = ''RGBG'',
      raw_image_visible = \<lparr>shape = [2, 2], elems = [10, 20, 30, 40]\<rparr>\<rparr>"


definition failing_env :: "nat env" where
  "failing_env =
     \<lparr>fits_open = (\<lambda>p. Inl OSError),
      rawpy_imread = (\<lambda>p. Inl LibRawFatalError),
      resolve = (\<lambda>p. ''/scan/file''),
      scan_folder_path = ''/scan''\<rparr>"

definition bayer_env :: "nat env" where
  "bayer_env = failing_env\<lparr>rawpy_imread := (\<lambda>p. Inr bayer_raw_file)\<rparr>"


section \<open>Properties of Image\<close>


text \<open>
  C9, as the code has it. \<open>needs_debayering\<close> holds exactly when a bayer pattern is
  set and the rank of the array is below 3, and \<open>is_color\<close> exactly when the rank is
  above 2. For an array of rank 2 or more the first condition is the one of the
  specification: a pattern is set and the rank is exactly 2.
\<close>

theorem needs_debayering_is_color_by_rank:
  "(needs_debayering img \<longleftrightarrow> bayer_pattern img \<noteq> None \<and> ndim (data img) < 3)
   \<and> (2 \<le> ndim (data img) \<longrightarrow>
        (needs_debayering img \<longleftrightarrow> bayer_pattern img \<noteq> None \<and> ndim (data img) = 2))
   \<and> (is_color img \<longleftrightarrow> 2 < ndim (data img))"
  by (auto simp: needs_debayering_def is_color_def)

theorem needs_debayering_is_color_by_rank_witness:
  "2 \<le> ndim (data ((Image \<lparr>shape = [4, 6], elems = replicate 24 (0 :: nat)\<rparr>)\<lparr>bayer_pattern := Some ''RGGB''\<rparr>))
   \<and> needs_debayering ((Image \<lparr>shape = [4, 6], elems = replicate 24 (0 :: nat)\<rparr>)\<lparr>bayer_pattern := Some ''RGGB''\<rparr>)
   \<and> \<not> is_color ((Image \<lparr>shape = [4, 6], elems = replicate 24 (0 :: nat)\<rparr>)\<lparr>bayer_pattern := Some ''RGGB''\<rparr>)"
  using needs_debayering_is_color_by_rank
    [of "(Image \<lparr>shape = [4, 6], elems = replicate 24 (0 :: nat)\<rparr>)\<lparr>bayer_pattern := Some ''RGGB''\<rparr>"]
  by (simp add: Image_def ndim_def)

text \<open>
  C9 as the specification words it fails on a one-dimensional array that carries a
  pattern, such as a FITS file with one axis and a BAYERPAT card gives: the image needs
  debayering although its rank is not 2.
\<close>

theorem needs_debayering_rank_1_counterexample:
  "needs_debayering ((Image \<lparr>shape = [5], elems = [1, 2, 3, 4, 5 :: nat]\<rparr>)\<lparr>bayer_pattern := Some ''RGGB''\<rparr>)
   \<and> ndim (data ((Image \<lparr>shape = [5], elems = [1, 2, 3, 4, 5 :: nat]\<rparr>)\<lparr>bayer_pattern := Some ''RGGB''\<rparr>)) \<noteq> 2"
  by (simp add: needs_debayering_def Image_def ndim_def)





section \<open>Properties of DataStore\<close>

text \<open>
  C3. A new store is in the stopped state. After any calls of \<open>record_session_start\<close>,
  \<open>record_session_stop\<close> and \<open>record_session_pause\<close>, from any state, the three
  flags \<open>session_is_started\<close> (running), \<open>session_is_stopped\<close> and
  \<open>session_is_paused\<close> are decided by the last call \<open>t\<close> alone: the flag of \<open>t\<close> is
  set and the two others are not.
\<close>

theorem session_flags_follow_last_call:
  "session_is_stopped DataStore \<and> \<not> session_is_started DataStore \<and> \<not> session_is_paused DataStore
   \<and> session_is_started (record_sessions (ts @ [t]) s) = (t = Start)
   \<and> session_is_stopped (record_sessions (ts @ [t]) s) = (t = Stop)
   \<and> session_is_paused (record_sessions (ts @ [t]) s) = (t = Pause)"
  by (cases t)
     (simp_all add: DataStore_def record_sessions_def record_session_start_def
        record_session_stop_def record_session_pause_def notify_observers_def)

text \<open>
  C4. The setter tests the trimmed text and stores the text as given: what is read back
  is the text itself when its trimmed form is a mode, and \<open>Mean\<close> otherwise.
\<close>

lemma stacking_mode_after_set:
  "stacking_mode (set_stacking_mode s t) =
     (if py_strip t = ''Sum'' \<or> py_strip t = ''Mean'' then t else ''Mean'')"
  by (auto simp: set_stacking_mode_def STACKING_MODE_SUM_def STACKING_MODE_MEAN_def)

text \<open>
  C4 at three inputs: \<open>Sum\<close> is read back as \<open>Sum\<close> and \<open>bogus\<close> as \<open>Mean\<close>, but
  \<open>Sum\<close> after a blank, whose trimmed form is \<open>Sum\<close>, is read back with its blank.
\<close>

theorem stacking_mode_keeps_untrimmed_text:
  "stacking_mode (set_stacking_mode s ''Sum'') = ''Sum''
   \<and> stacking_mode (set_stacking_mode s ''bogus'') = ''Mean''
   \<and> py_strip '' Sum'' = ''Sum''
   \<and> stacking_mode (set_stacking_mode s '' Sum'') = '' Sum''"
  by (simp add: set_stacking_mode_def py_strip_def py_isspace_def
       STACKING_MODE_SUM_def STACKING_MODE_MEAN_def)

section \<open>Properties of the Bayer canonicalization\<close>

lemma bayer_loop_in_range:
  assumes len: "length indices = length colors"
    and rng: "\<forall>k\<in>set indices. k < length indices"
  shows "bayer_loop indices colors i acc = Inr (acc @ map ((!) colors) (drop i indices))"
proof (induction "length indices - i" arbitrary: i acc)
  case 0
  then show ?case by (simp add: bayer_loop.simps [of indices colors i])
next
  case (Suc d)
  then have i: "i < length indices" by simp
  with rng have k: "indices ! i < length indices" by simp
  from Suc have "d = length indices - (i + 1)" by simp
  from Suc.hyps(1) [OF this]
  have "bayer_loop indices colors (i + 1) (acc @ [colors ! (indices ! i)])
          = Inr ((acc @ [colors ! (indices ! i)]) @ map ((!) colors) (drop (i + 1) indices))" .
  moreover have "drop i indices = indices ! i # drop (i + 1) indices"
    using i by (simp add: Cons_nth_drop_Suc)
  ultimately show ?case
    using i k len by (simp add: bayer_loop.simps [of indices colors i] py_getitem_def)
qed

lemma canonical_bayer_pattern_in_range:
  assumes "length indices = length colors"
    and "\<forall>k\<in>set indices. k < length indices"
  shows "canonical_bayer_pattern indices colors = Inr (map ((!) colors) indices)"
  using bayer_loop_in_range [OF assms, of 0 "[]"] assms(1)
  by (simp add: canonical_bayer_pattern_def)

text \<open>
  C1. For a tile \<open>indices\<close> that is a permutation of 0..3 and four labels \<open>colors\<close>,
  the canonicalization returns the string of length 4 whose \<open>i\<close>-th character is
  \<open>colors[indices[i]]\<close>; for the identity tile it returns \<open>colors\<close>; and the RAW
  reader stores that string as the bayer pattern of the image it returns.
\<close>

theorem canonical_bayer_pattern_permutation:
  assumes "mset indices = mset [0, 1, 2, 3]" and "length colors = 4"
  shows "canonical_bayer_pattern indices colors = Inr (map ((!) colors) indices)
         \<and> length (map ((!) colors) indices) = 4
         \<and> (\<forall>i<4. map ((!) colors) indices ! i = colors ! (indices ! i))
         \<and> (indices = [0, 1, 2, 3] \<longrightarrow> canonical_bayer_pattern indices colors = Inr colors)
         \<and> (rawpy_imread env p = Inr raw \<and> flatten (raw_pattern raw) = indices \<and> color_desc raw = colors
              \<longrightarrow> snd (read_raw_image env w p) =
                    Inr (Some ((Image (raw_image_visible raw))
                                 \<lparr>bayer_pattern := Some (map ((!) colors) indices)\<rparr>)))"
proof -
  from assms(1) have len: "length indices = 4"
    using mset_eq_length by fastforce
  from assms(1) have "set indices = {0, 1, 2, 3}"
    using mset_eq_setD by fastforce
  then have rng: "\<forall>k\<in>set indices. k < length indices" using len by auto
  have eq: "canonical_bayer_pattern indices colors = Inr (map ((!) colors) indices)"
    using canonical_bayer_pattern_in_range [of indices colors] len assms(2) rng by simp
  from assms(2) obtain a b c d where "colors = [a, b, c, d]"
    by (auto simp: numeral_eq_Suc length_Suc_conv)
  then have ident: "map ((!) colors) [0, 1, 2, 3] = colors"
    by simp
  have raw: "rawpy_imread env p = Inr raw \<and> flatten (raw_pattern raw) = indices \<and> color_desc raw = colors
      \<longrightarrow> snd (read_raw_image env w p) =
            Inr (Some ((Image (raw_image_visible raw))\<lparr>bayer_pattern := Some (map ((!) colors) indices)\<rparr>))"
    using eq by (auto simp: read_raw_image_def)
  from eq len ident raw show ?thesis by auto
qed

text \<open>The tile 0 1 3 2 with the labels RGBG gives RGGB, also through the RAW reader.\<close>

theorem canonical_bayer_pattern_permutation_witness:
  "mset [0, 1, 3, 2] = mset [0, 1, 2, 3 :: nat] \<and> length ''RGBG'' = 4
   \<and> canonical_bayer_pattern [0, 1, 3, 2] ''RGBG'' = Inr ''RGGB''
   \<and> snd (read_raw_image bayer_env new_world raw_path) =
       Inr (Some ((Image (raw_image_visible bayer_raw_file))\<lparr>bayer_pattern := Some ''RGGB''\<rparr>))"
proof -
  have p: "mset [0, 1, 3, 2] = mset [0, 1, 2, 3 :: nat]" by simp
  have l: "length ''RGBG'' = 4" by simp
  have r: "rawpy_imread bayer_env raw_path = Inr bayer_raw_file
           \<and> flatten (raw_pattern bayer_raw_file) = [0, 1, 3, 2]
           \<and> color_desc bayer_raw_file = ''RGBG''"
    by (simp add: bayer_env_def failing_env_def bayer_raw_file_def flatten_def)
  from canonical_bayer_pattern_permutation
         [OF p l, of bayer_env raw_path bayer_raw_file new_world] p l r
  show ?thesis by simp
qed

section \<open>Properties of SignalingQueue\<close>










section \<open>Properties of reading an image\<close>

lemma ignore_loop_patterns:
  "ignore_loop IGNORED_FILENAME_START_PATTERNS name False
     = (prefix ''.'' name \<or> prefix ''~'' name \<or> prefix ''tmp'' name)"
  by (simp add: IGNORED_FILENAME_START_PATTERNS_def)

text \<open>
  C8. When the last component of the path begins with a dot, a tilde or \<open>tmp\<close>,
  \<open>read_image\<close> returns no image and leaves the world as it is, the list of reader
  calls included: neither reader is called, whatever the libraries would do.
\<close>

theorem read_image_ignores_hidden_and_temporary:
  assumes "prefix ''.'' (path_name p) \<or> prefix ''~'' (path_name p) \<or> prefix ''tmp'' (path_name p)"
  shows "read_image env w p = (w, Inr None)
         \<and> reader_calls (fst (read_image env w p)) = reader_calls w"
  using assms by (simp add: read_image_def ignore_loop_patterns)

theorem read_image_ignores_hidden_and_temporary_witness:
  "prefix ''.'' (path_name hidden_path)
   \<and> read_image bayer_env new_world hidden_path = (new_world, Inr None)
   \<and> reader_calls (fst (read_image bayer_env new_world hidden_path)) = []"
proof -
  have h: "prefix ''.'' (path_name hidden_path)"
    by (simp add: hidden_path_def path_name_def)
  then have "prefix ''.'' (path_name hidden_path) \<or> prefix ''~'' (path_name hidden_path)
             \<or> prefix ''tmp'' (path_name hidden_path)"
    by simp
  from read_image_ignores_hidden_and_temporary [OF this, of bayer_env new_world] h
  show ?thesis by (simp add: new_world_def)
qed








section \<open>Properties of FolderScanner\<close>

lemma purge_loop_empties: "purge_loop q = Some (q\<lparr>queue := []\<rparr>, Inr ())"
proof (induction "length (queue q)" arbitrary: q)
  case 0
  then show ?case by (simp add: purge_loop.simps [of q] Queue_empty_def Queue_qsize_def)
next
  case (Suc n)
  then obtain x xs where q: "queue q = x # xs" by (cases "queue q") auto
  with Suc.hyps(2) have "n = length (queue (q\<lparr>queue := xs\<rparr>))" by simp
  from Suc.hyps(1) [OF this] q show ?case
    by (simp add: purge_loop.simps [of q] Queue_empty_def Queue_qsize_def Queue_get_def)
qed

text \<open>
  C5. \<open>pause\<close> leaves the input queue as it is, so that a \<open>get\<close> after it returns
  what it would have returned before. \<open>stop\<close> always returns, without an exception,
  and its result is the result of \<open>pause\<close> with the items of the input queue removed:
  the queue is empty whatever it held, and nothing else differs.
\<close>

theorem pause_keeps_stop_purges:
  "IMAGE_INPUT_QUEUE (snd (pause sc w)) = IMAGE_INPUT_QUEUE w
   \<and> Queue_get (IMAGE_INPUT_QUEUE (snd (pause sc w))) block timeout
       = Queue_get (IMAGE_INPUT_QUEUE w) block timeout
   \<and> stop sc w =
       Some (fst (pause sc w),
             (snd (pause sc w))\<lparr>IMAGE_INPUT_QUEUE := (IMAGE_INPUT_QUEUE w)\<lparr>queue := []\<rparr>\<rparr>,
             Inr ())
   \<and> Queue_empty ((IMAGE_INPUT_QUEUE w)\<lparr>queue := []\<rparr>)"
  by (simp add: pause_def stop_def stop_observer_def purge_queue_def purge_loop_empties
        Queue_empty_def Queue_qsize_def split: option.splits)

text \<open>A started scanner with two images waiting: kept by \<open>pause\<close>, dropped by \<open>stop\<close>.\<close>

theorem pause_keeps_stop_purges_witness:
  "snd (pause \<lparr>observer = Some \<lparr>scheduled = [''/scan''], started = True\<rparr>\<rparr>
          (new_world\<lparr>IMAGE_INPUT_QUEUE :=
             \<lparr>maxsize = 0,
              queue = [Image \<lparr>shape = [2, 2], elems = [1, 2, 3, 4]\<rparr>,
                       Image \<lparr>shape = [2, 2], elems = [5, 6, 7, 8]\<rparr>]\<rparr>\<rparr>))
     = new_world\<lparr>IMAGE_INPUT_QUEUE :=
           \<lparr>maxsize = 0,
            queue = [Image \<lparr>shape = [2, 2], elems = [1, 2, 3, 4]\<rparr>,
                     Image \<lparr>shape = [2, 2], elems = [5, 6, 7, 8]\<rparr>]\<rparr>,
         STORE := DataStore\<lparr>scan_in_progress := Some False\<rparr>\<rparr>
   \<and> stop \<lparr>observer = Some \<lparr>scheduled = [''/scan''], started = True\<rparr>\<rparr>
          (new_world\<lparr>IMAGE_INPUT_QUEUE :=
             \<lparr>maxsize = 0,
              queue = [Image \<lparr>shape = [2, 2], elems = [1, 2, 3, 4]\<rparr>,
                       Image \<lparr>shape = [2, 2], elems = [5, 6, 7, 8]\<rparr>]\<rparr>\<rparr>)
     = Some (\<lparr>observer = None\<rparr>,
             new_world\<lparr>IMAGE_INPUT_QUEUE := \<lparr>maxsize = 0, queue = []\<rparr>,
               STORE := DataStore\<lparr>scan_in_progress := Some False\<rparr>\<rparr>,
             Inr ())"
  using pause_keeps_stop_purges
    [of "\<lparr>observer = Some \<lparr>scheduled = [''/scan''], started = True\<rparr>\<rparr>"
        "new_world\<lparr>IMAGE_INPUT_QUEUE :=
             \<lparr>maxsize = 0,
              queue = [Image \<lparr>shape = [2, 2], elems = [1, 2, 3, 4]\<rparr>,
                       Image \<lparr>shape = [2, 2], elems = [5, 6, 7, 8]\<rparr>]\<rparr>\<rparr>"]
  by (simp add: pause_def stop_observer_def new_world_def)
lemma wait_loop_done: "wait_loop sizes k False l = Some (k, l)"
  by (simp add: wait_loop.simps [of sizes k False l])

lemma wait_loop_equal: "int (sizes k) = l \<Longrightarrow> wait_loop sizes k True l = Some (k + 1, l)"
  by (simp add: wait_loop.simps [of sizes k True l] wait_loop_done)

lemma wait_loop_differ:
  "int (sizes k) \<noteq> l \<Longrightarrow> wait_loop sizes k True l = wait_loop sizes (k + 1) True (int (sizes k))"
  by (simp add: wait_loop.simps [of sizes k True l])

lemma wait_loop_stable:
  assumes "sizes (Suc (k + n)) = sizes (k + n)"
    and "\<forall>i<n. sizes (Suc (k + i)) \<noteq> sizes (k + i)"
  shows "wait_loop sizes (Suc k) True (int (sizes k)) = Some (k + n + 2, int (sizes (k + n)))"
  using assms
proof (induction n arbitrary: k)
  case 0
  then show ?case using wait_loop_equal [of sizes "Suc k" "int (sizes k)"] by simp
next
  case (Suc n)
  from Suc.prems(2) have d: "sizes (Suc k) \<noteq> sizes k" by fastforce
  have a: "sizes (Suc (Suc k + n)) = sizes (Suc k + n)" using Suc.prems(1) by simp
  have b: "\<forall>i<n. sizes (Suc (Suc k + i)) \<noteq> sizes (Suc k + i)"
  proof (intro allI impI)
    fix i assume "i < n"
    then have "Suc i < Suc n" by simp
    with Suc.prems(2) have "sizes (Suc (k + Suc i)) \<noteq> sizes (k + Suc i)" by blast
    then show "sizes (Suc (Suc k + i)) \<noteq> sizes (Suc k + i)" by simp
  qed
  from Suc.IH [OF a b] d show ?case
    using wait_loop_differ [of sizes "Suc k" "int (sizes k)"] by simp
qed

lemma wait_loop_from_start:
  assumes "sizes (Suc j) = sizes j" and "\<forall>i<j. sizes (Suc i) \<noteq> sizes i"
  shows "wait_loop sizes 0 True (- 1) = Some (j + 2, int (sizes j))"
proof -
  have "wait_loop sizes 0 True (- 1) = wait_loop sizes (Suc 0) True (int (sizes 0))"
    using wait_loop_differ [of sizes 0 "- 1"] by simp
  also have "\<dots> = Some (j + 2, int (sizes j))"
    using wait_loop_stable [of sizes 0 j] assms by simp
  finally show ?thesis .
qed

lemma wait_loop_returns_only_on_equal:
  assumes "wait_loop sizes k b l = Some r"
  shows "b = True \<longrightarrow> (int (sizes k) = l \<or> (\<exists>j\<ge>k. sizes (Suc j) = sizes j))"
proof (rule wait_loop.raw_induct
    [where P = "\<lambda>sizes k b l r. b = True \<longrightarrow> (int (sizes k) = l \<or> (\<exists>j\<ge>k. sizes (Suc j) = sizes j))",
     OF _ assms])
  fix wl :: "(nat \<Rightarrow> nat) \<Rightarrow> nat \<Rightarrow> bool \<Rightarrow> int \<Rightarrow> (nat \<times> int) option"
  fix sizes k b l r
  assume IH: "\<And>sizes k b l r. wl sizes k b l = Some r \<Longrightarrow>
                b = True \<longrightarrow> (int (sizes k) = l \<or> (\<exists>j\<ge>k. sizes (Suc j) = sizes j))"
    and body: "(if b then let fsize = int (sizes k)
                 in wl sizes (k + 1) (if fsize = l then False else b) fsize
               else Some (k, l)) = Some r"
  show "b = True \<longrightarrow> (int (sizes k) = l \<or> (\<exists>j\<ge>k. sizes (Suc j) = sizes j))"
  proof (intro impI)
    assume b: "b = True"
    show "int (sizes k) = l \<or> (\<exists>j\<ge>k. sizes (Suc j) = sizes j)"
    proof (cases "int (sizes k) = l")
      case True
      then show ?thesis by simp
    next
      case False
      with b body have "wl sizes (k + 1) True (int (sizes k)) = Some r" by (simp add: Let_def)
      from IH [OF this]
      have "int (sizes (k + 1)) = int (sizes k) \<or> (\<exists>j\<ge>k + 1. sizes (Suc j) = sizes j)" by simp
      then show ?thesis
      proof
        assume "int (sizes (k + 1)) = int (sizes k)"
        then have "sizes (Suc k) = sizes k" by simp
        then show ?thesis by blast
      next
        assume "\<exists>j\<ge>k + 1. sizes (Suc j) = sizes j"
        then obtain j where "j \<ge> k + 1" "sizes (Suc j) = sizes j" by blast
        then have "j \<ge> k \<and> sizes (Suc j) = sizes j" by simp
        then show ?thesis by blast
      qed
    qed
  qed
qed

lemma wait_loop_never:
  assumes "\<forall>i. sizes (Suc i) \<noteq> sizes i"
  shows "wait_loop sizes 0 True (- 1) = None"
proof (cases "wait_loop sizes 0 True (- 1)")
  case None
  then show ?thesis .
next
  case (Some r)
  from wait_loop_returns_only_on_equal [OF this] assms show ?thesis by simp
qed

lemma wait_loop_returned:
  assumes "wait_loop sizes 0 True (- 1) = Some r"
  shows "\<exists>j. sizes (Suc j) = sizes j \<and> (\<forall>i<j. sizes (Suc i) \<noteq> sizes i) \<and> r = (j + 2, int (sizes j))"
proof -
  from wait_loop_returns_only_on_equal [OF assms]
  have ex: "\<exists>j. sizes (Suc j) = sizes j" by auto
  define j where "j = (LEAST j. sizes (Suc j) = sizes j)"
  from ex have eq: "sizes (Suc j) = sizes j"
    unfolding j_def by (rule LeastI_ex)
  have first: "\<forall>i<j. sizes (Suc i) \<noteq> sizes i"
    unfolding j_def using not_less_Least by blast
  from wait_loop_from_start [OF eq first] assms have "r = (j + 2, int (sizes j))" by simp
  with eq first show ?thesis by blast
qed

text \<open>
  C7, with \<open>sizes\<close> the successive readings of the file's size. When readings \<open>j\<close>
  and \<open>j + 1\<close> are the first two consecutive readings that are equal, the wait ends
  after exactly \<open>j + 2\<close> readings and the handler goes on to read and enqueue the
  image. When no two consecutive readings are equal, the wait never ends and the
  handler never returns, so nothing is read. And whenever the wait ends, it has ended
  at such a first pair.
\<close>

theorem on_created_waits_for_two_equal_sizes:
  "(sizes (Suc j) = sizes j \<and> (\<forall>i<j. sizes (Suc i) \<noteq> sizes i) \<longrightarrow>
      wait_loop sizes 0 True (- 1) = Some (j + 2, int (sizes j))
      \<and> on_created env w \<lparr>event_type = ''created'', src_path = p, dest_path = p'\<rparr> sizes
          = (case read_image env w p of
               (w', Inl e) \<Rightarrow> Some (w', Inl e)
             | (w', Inr im) \<Rightarrow> enqueue_image w' im))
   \<and> ((\<forall>i. sizes (Suc i) \<noteq> sizes i) \<longrightarrow>
      wait_loop sizes 0 True (- 1) = None
      \<and> on_created env w \<lparr>event_type = ''created'', src_path = p, dest_path = p'\<rparr> sizes = None)
   \<and> (wait_loop sizes 0 True (- 1) = Some r \<longrightarrow>
        (\<exists>j. sizes (Suc j) = sizes j \<and> (\<forall>i<j. sizes (Suc i) \<noteq> sizes i)
             \<and> r = (j + 2, int (sizes j))))"
proof (intro conjI impI)
  assume "sizes (Suc j) = sizes j \<and> (\<forall>i<j. sizes (Suc i) \<noteq> sizes i)"
  then have wl: "wait_loop sizes 0 True (- 1) = Some (j + 2, int (sizes j))"
    using wait_loop_from_start [of sizes j] by simp
  then show "wait_loop sizes 0 True (- 1) = Some (j + 2, int (sizes j))" .
  from wl show "on_created env w \<lparr>event_type = ''created'', src_path = p, dest_path = p'\<rparr> sizes
          = (case read_image env w p of
               (w', Inl e) \<Rightarrow> Some (w', Inl e)
             | (w', Inr im) \<Rightarrow> enqueue_image w' im)"
    by (simp add: on_created_def)
next
  assume "\<forall>i. sizes (Suc i) \<noteq> sizes i"
  then have wl: "wait_loop sizes 0 True (- 1) = None" by (rule wait_loop_never)
  then show "wait_loop sizes 0 True (- 1) = None" .
  from wl show "on_created env w \<lparr>event_type = ''created'', src_path = p, dest_path = p'\<rparr> sizes = None"
    by (simp add: on_created_def)
next
  assume "wait_loop sizes 0 True (- 1) = Some r"
  then show "\<exists>j. sizes (Suc j) = sizes j \<and> (\<forall>i<j. sizes (Suc i) \<noteq> sizes i)
                \<and> r = (j + 2, int (sizes j))"
    by (rule wait_loop_returned)
qed

text \<open>
  A file read as 0, 1024, 2048 and 2048 bytes is taken as written after the fourth
  reading, and the image of the Bayer RAW file is then enqueued; a file whose
  \<open>k\<close>-th reading is \<open>k\<close> bytes is waited for without end.
\<close>

theorem on_created_waits_for_two_equal_sizes_witness:
  "wait_loop (\<lambda>k. if k < 2 then 1024 * k else 2048) 0 True (- 1) = Some (4, 2048)
   \<and> on_created bayer_env new_world
        \<lparr>event_type = ''created'', src_path = raw_path, dest_path = raw_path\<rparr>
        (\<lambda>k. if k < 2 then 1024 * k else 2048)
      = Some (new_world
                \<lparr>IMAGE_INPUT_QUEUE :=
                   \<lparr>maxsize = 0,
                    queue = [(Image (raw_image_visible bayer_raw_file))
                               \<lparr>bayer_pattern := Some ''RGGB'', origin := ''FILE : /scan/file''\<rparr>]\<rparr>,
                 reader_calls := [(Raw_reader, raw_path)]\<rparr>,
              Inr ())
   \<and> wait_loop (\<lambda>k. k) 0 True (- 1) = None
   \<and> on_created bayer_env new_world
        \<lparr>event_type = ''created'', src_path = raw_path, dest_path = raw_path\<rparr> (\<lambda>k. k) = None"
proof -
  let ?grow = "\<lambda>k :: nat. if k < 2 then 1024 * k else (2048 :: nat)"
  have stable: "?grow (Suc 2) = ?grow 2 \<and> (\<forall>i<2. ?grow (Suc i) \<noteq> ?grow i)"
    by (simp add: less_Suc_eq numeral_2_eq_2)
  have never: "\<forall>i :: nat. Suc i \<noteq> i" by simp
  have rd: "(case read_image bayer_env new_world raw_path of
               (w', Inl e) \<Rightarrow> Some (w', Inl e)
             | (w', Inr im) \<Rightarrow> enqueue_image w' im)
            = Some (new_world
                \<lparr>IMAGE_INPUT_QUEUE :=
                   \<lparr>maxsize = 0,
                    queue = [(Image (raw_image_visible bayer_raw_file))
                               \<lparr>bayer_pattern := Some ''RGGB'', origin := ''FILE : /scan/file''\<rparr>]\<rparr>,
                 reader_calls := [(Raw_reader, raw_path)]\<rparr>,
              Inr ())"
    by code_simp
  from on_created_waits_for_two_equal_sizes
         [of ?grow 2 bayer_env new_world raw_path raw_path]
       stable rd
  have a: "wait_loop ?grow 0 True (- 1) = Some (4, 2048)
     \<and> on_created bayer_env new_world
        \<lparr>event_type = ''created'', src_path = raw_path, dest_path = raw_path\<rparr> ?grow
      = Some (new_world
                \<lparr>IMAGE_INPUT_QUEUE :=
                   \<lparr>maxsize = 0,
                    queue = [(Image (raw_image_visible bayer_raw_file))
                               \<lparr>bayer_pattern := Some ''RGGB'', origin := ''FILE : /scan/file''\<rparr>]\<rparr>,
                 reader_calls := [(Raw_reader, raw_path)]\<rparr>,
              Inr ())"
    by simp
  from on_created_waits_for_two_equal_sizes
         [of "\<lambda>k. k" 0 bayer_env new_world raw_path raw_path]
       never
  have b: "wait_loop (\<lambda>k. k) 0 True (- 1) = None
     \<and> on_created bayer_env new_world
        \<lparr>event_type = ''created'', src_path = raw_path, dest_path = raw_path\<rparr> (\<lambda>k. k) = None"
    by simp
  from a b show ?thesis by simp
qed

end
